theory Spec2Isabelle
  imports Complex_Main "HOL-Library.Sublist" "HOL-Library.Multiset"
begin

section \<open>ReadRight client: response model\<close>

text \<open>
  The client is the React component \<open>App\<close>. Its state is the tuple of \<open>useState\<close>
  cells; every handler is a function from the state to the next state. JavaScript
  numbers that reach the ranking code are finite (JSON cannot carry NaN, and the two
  filter cells are only ever written with \<open>1\<close>, \<open>10\<close> or \<open>Number(e.target.value)\<close> of a
  range or number input), so they are modelled as \<open>real\<close>; the comparisons and the sign
  of a difference, which is all the ranking code uses, agree with the IEEE ones there.
  A property read with \<open>?.\<close> or \<open>??\<close> may be absent: it is an \<open>option\<close>.
\<close>

record scored =
  sentence :: string
  score :: "real option"

record analysis_result =
  grade_level :: "real option"
  reading_time_minutes :: "real option"
  total_sentences :: "real option"
  average_risk_score :: "real option"
  all_sentences :: "scored list option"
  top_risk_sentences :: "scored list option"

section \<open>Risk filter and ranking\<close>

text \<open>\<open>function clamp(n, a, b) { return Math.max(a, Math.min(b, n)); }\<close>\<close>

definition clamp :: "real \<Rightarrow> real \<Rightarrow> real \<Rightarrow> real" where
  "clamp n a b = max a (min b n)"

text \<open>\<open>x || d\<close> on a finite number: \<open>0\<close> is the only falsy one.\<close>

definition num_or :: "real \<Rightarrow> real \<Rightarrow> real" where
  "num_or x d = (if x = 0 then d else x)"

text \<open>\<open>x.score ?? 0\<close>\<close>

definition score0 :: "scored \<Rightarrow> real" where
  "score0 x = (case score x of None \<Rightarrow> 0 | Some s \<Rightarrow> s)"

text \<open>The comparator handed to \<open>arr.sort\<close>: \<open>(a, b) => (b.score ?? 0) - (a.score ?? 0)\<close>.\<close>

definition cmp_desc :: "scored \<Rightarrow> scored \<Rightarrow> real" where
  "cmp_desc a b = score0 b - score0 a"

text \<open>
  \<open>Array.prototype.sort\<close> is the engine's: ECMAScript requires it to be stable and to
  order \<open>a\<close> before \<open>b\<close> when the comparator is negative. For a consistent comparator
  that fixes the result, so a stable insertion sort computes it: an element goes in
  front of the first later element it does not have to follow.
\<close>

fun sort_insert :: "('a \<Rightarrow> 'a \<Rightarrow> real) \<Rightarrow> 'a \<Rightarrow> 'a list \<Rightarrow> 'a list" where
  "sort_insert c x [] = [x]"
| "sort_insert c x (y # ys) = (if c x y \<le> 0 then x # y # ys else y # sort_insert c x ys)"

fun js_sort :: "('a \<Rightarrow> 'a \<Rightarrow> real) \<Rightarrow> 'a list \<Rightarrow> 'a list" where
  "js_sort c [] = []"
| "js_sort c (x # xs) = sort_insert c x (js_sort c xs)"

text \<open>
  \<open>allSorted\<close>: \<open>if (!analysis?.all_sentences) return []\<close>, then a sorted copy.
\<close>

definition allSorted :: "analysis_result option \<Rightarrow> scored list" where
  "allSorted analysis =
     (case analysis of None \<Rightarrow> []
      | Some a \<Rightarrow> (case all_sentences a of None \<Rightarrow> []
                   | Some xs \<Rightarrow> js_sort cmp_desc xs))"

text \<open>\<open>filtered\<close>: \<open>min = clamp(Number(minRisk) || 0, 0, 999)\<close>, keep \<open>(x.score ?? 0) >= min\<close>.\<close>

definition filtered :: "analysis_result option \<Rightarrow> real \<Rightarrow> scored list" where
  "filtered analysis minRisk =
     (let mn = clamp (num_or minRisk 0) 0 999
      in filter (\<lambda>x. score0 x \<ge> mn) (allSorted analysis))"

text \<open>
  \<open>topShown\<close>: \<open>n = clamp(Number(topN) || 10, 1, 200)\<close>, then \<open>filtered.slice(0, n)\<close>.
  \<open>slice\<close> truncates its bound to an integer; \<open>n\<close> is at least 1, so that is the floor.
\<close>

definition topShown :: "analysis_result option \<Rightarrow> real \<Rightarrow> real \<Rightarrow> scored list" where
  "topShown analysis minRisk topN =
     (let n = clamp (num_or topN 10) 1 200
      in take (nat \<lfloor>n\<rfloor>) (filtered analysis minRisk))"

text \<open>
  \<open>judgeFriendly\<close>: the backend's shortlist when it has a non-zero length, else the
  first five of \<open>topShown\<close>.
\<close>

definition judgeFriendly :: "analysis_result option \<Rightarrow> real \<Rightarrow> real \<Rightarrow> scored list" where
  "judgeFriendly analysis minRisk topN =
     (case analysis of
        None \<Rightarrow> take 5 (topShown analysis minRisk topN)
      | Some a \<Rightarrow> (case top_risk_sentences a of
                     None \<Rightarrow> take 5 (topShown analysis minRisk topN)
                   | Some ts \<Rightarrow> if ts \<noteq> [] then ts
                                else take 5 (topShown analysis minRisk topN)))"

text \<open>
  The arrays as objects. \<open>allSorted\<close> sorts in place, but on \<open>[...analysis.all_sentences]\<close>,
  a fresh array. The heap is the list of array objects, an address is an index, the
  spread allocates a copy at the end, and \<open>sort\<close> overwrites the array it is called on.
\<close>

type_synonym heap = "scored list list"

definition spread_copy :: "heap \<Rightarrow> nat \<Rightarrow> heap \<times> nat" where
  "spread_copy h a = (h @ [h ! a], length h)"

definition sort_in_place :: "heap \<Rightarrow> nat \<Rightarrow> heap" where
  "sort_in_place h a = h[a := js_sort cmp_desc (h ! a)]"

definition allSorted_heap :: "heap \<Rightarrow> nat \<Rightarrow> heap \<times> nat" where
  "allSorted_heap h a = (case spread_copy h a of (h1, arr) \<Rightarrow> (sort_in_place h1 arr, arr))"

section \<open>The backend, as the client sees it\<close>

text \<open>
  A \<open>File\<close> is known to the client by its name only. A network call is one \<open>fetch\<close>:
  \<open>POST /analyze\<close> with the file, or \<open>POST /rewrite\<close> with \<open>{sentence, mode}\<close>.
\<close>

type_synonym pdf_file = string

datatype request = AnalyzeReq pdf_file | RewriteReq string string

text \<open>
  What \<open>await fetch(...)\<close> gives: \<open>Inl msg\<close> when the promise rejects with an error
  whose \<open>message\<close> is \<open>msg\<close>, \<open>Inr res\<close> for a response. \<open>res.text()\<close> may reject
  (\<open>None\<close>), \<open>res.json()\<close> may reject with an error message (\<open>Inl\<close>).
\<close>

record 'j response =
  status :: nat
  body_text :: "string option"
  body_json :: "string + 'j"

type_synonym 'j fetched = "string + 'j response"

text \<open>\<open>res.ok\<close>: the status is in the range 200 to 299.\<close>

definition ok :: "'j response \<Rightarrow> bool" where
  "ok res = (200 \<le> status res \<and> status res \<le> 299)"

text \<open>\<open>await res.text().catch(() => "")\<close>\<close>

definition text_or_empty :: "'j response \<Rightarrow> string" where
  "text_or_empty res = (case body_text res of None \<Rightarrow> [] | Some t \<Rightarrow> t)"

text \<open>A number in a template literal: its decimal digits.\<close>

fun show_nat :: "nat \<Rightarrow> string" where
  "show_nat n =
     (if n < 10 then [''0123456789'' ! n]
      else show_nat (n div 10) @ [''0123456789'' ! (n mod 10)])"

declare show_nat.simps [simp del]

text \<open>\<open>a || d\<close> where \<open>a\<close> is a string or absent: the empty string is falsy too.\<close>

fun str_or :: "string option \<Rightarrow> string \<Rightarrow> string" where
  "str_or None d = d"
| "str_or (Some s) d = (if s = [] then d else s)"

text \<open>The body of a \<open>/rewrite\<close> answer; the client reads three of its fields.\<close>

record rewrite_body =
  rewrite :: "string option"
  rewritten :: "string option"
  text_field :: "string option"

section \<open>The component state\<close>

datatype status_pill = Idle | Ready | Analyzing | Done | Error

text \<open>
  A value of \<open>rewriteBySentence\<close>: \<open>{ loading, error, output }\<close>. The fields carry the
  prefix \<open>rw_\<close>: \<open>loading\<close> and \<open>error\<close> are also cells of the component.
\<close>

record rewrite_state =
  rw_loading :: bool
  rw_error :: string
  rw_output :: string

text \<open>The \<open>useState\<close> cells of \<open>App\<close> (\<open>file'\<close> is the cell \<open>file\<close>).\<close>

record app =
  file' :: "pdf_file option"
  fileName :: string
  loading :: bool
  statusPill :: status_pill
  error :: string
  analysis :: "analysis_result option"
  minRisk :: real
  topN :: real
  rewriteBySentence :: "string \<rightharpoonup> rewrite_state"

definition initial :: app where
  "initial = \<lparr> file' = None, fileName = [], loading = False, statusPill = Idle,
               error = [], analysis = None, minRisk = 1, topN = 10,
               rewriteBySentence = Map.empty \<rparr>"

section \<open>Analysis session manager\<close>

text \<open>
  \<open>analyzePdf\<close> runs in two turns: up to \<open>await fetch\<close>, and from the settled promise
  to the end. The first turn returns the network calls it makes.
\<close>

definition analyzePdf_begin :: "app \<Rightarrow> app \<times> request list" where
  "analyzePdf_begin st =
     (case file' st of
        None \<Rightarrow> (st\<lparr>error := ''Choose a PDF first.''\<rparr>, [])
      | Some f \<Rightarrow> (st\<lparr>error := [], loading := True, statusPill := Analyzing\<rparr>,
                   [AnalyzeReq f]))"

text \<open>The \<open>try\<close> block after the fetch: \<open>Inl\<close> is the message of the error thrown.\<close>

definition analyze_try :: "analysis_result fetched \<Rightarrow> string + analysis_result" where
  "analyze_try r =
     (case r of
        Inl msg \<Rightarrow> Inl msg
      | Inr res \<Rightarrow>
          if \<not> ok res
          then Inl (''Analyze failed ('' @ show_nat (status res) @ ''). '' @ text_or_empty res)
          else body_json res)"

definition analyzePdf_settle :: "app \<Rightarrow> analysis_result fetched \<Rightarrow> app" where
  "analyzePdf_settle st r =
     (case analyze_try r of
        Inr data \<Rightarrow>
          st\<lparr>analysis := Some data, statusPill := Done, minRisk := 1, topN := 10,
             rewriteBySentence := Map.empty, loading := False\<rparr>
      | Inl msg \<Rightarrow>
          st\<lparr>statusPill := Error, error := str_or (Some msg) ''Analyze failed.'',
             loading := False\<rparr>)"

text \<open>One whole call, nothing else happening in between.\<close>

definition analyzePdf :: "app \<Rightarrow> analysis_result fetched \<Rightarrow> app \<times> request list" where
  "analyzePdf st r =
     (case analyzePdf_begin st of
        (st1, []) \<Rightarrow> (st1, [])
      | (st1, q # qs) \<Rightarrow> (analyzePdf_settle st1 r, q # qs))"

definition onPickFile :: "app \<Rightarrow> pdf_file option \<Rightarrow> app" where
  "onPickFile st f =
     st\<lparr>file' := f, fileName := (case f of None \<Rightarrow> [] | Some n \<Rightarrow> n), analysis := None,
        error := [], statusPill := Ready, rewriteBySentence := Map.empty\<rparr>"

section \<open>Rewrite cache and request coordinator\<close>

text \<open>\<open>existing?.output\<close>, \<open>existing?.error\<close>, \<open>rewriteState?.loading\<close> on a cache lookup.\<close>

definition opt_output :: "rewrite_state option \<Rightarrow> string option" where
  "opt_output e = map_option rw_output e"

definition opt_error :: "rewrite_state option \<Rightarrow> string option" where
  "opt_error e = map_option rw_error e"

definition truthy :: "string option \<Rightarrow> bool" where
  "truthy v = (str_or v [] \<noteq> [])"

text \<open>
  \<open>rewriteSentence\<close>, first turn. The guard reads \<open>rewriteBySentence\<close> of the render the
  handler was created in (\<open>seen\<close>); the update is a function of the cell's latest value.
\<close>

definition rewriteSentence_begin ::
  "(string \<rightharpoonup> rewrite_state) \<Rightarrow> app \<Rightarrow> string \<Rightarrow> string \<Rightarrow> app \<times> request list" where
  "rewriteSentence_begin seen st sent mode =
     (let key = sent; existing = seen key
      in if truthy (opt_output existing) \<and> \<not> truthy (opt_error existing) then (st, [])
         else (st\<lparr>rewriteBySentence :=
                    (\<lambda>prev. prev(key \<mapsto>
                       \<lparr> rw_loading = True, rw_error = [],
                         rw_output = str_or (opt_output (prev key)) [] \<rparr>))
                    (rewriteBySentence st)\<rparr>,
               [RewriteReq sent mode]))"

text \<open>The \<open>try\<close> block after the fetch: \<open>Inl\<close> is the message of the error thrown.\<close>

definition rewrite_try :: "rewrite_body fetched \<Rightarrow> string + rewrite_body" where
  "rewrite_try r =
     (case r of
        Inl msg \<Rightarrow> Inl msg
      | Inr res \<Rightarrow>
          if \<not> ok res
          then Inl (''Rewrite failed ('' @ show_nat (status res) @ ''). '' @ text_or_empty res)
          else body_json res)"

text \<open>\<open>const out = data?.rewrite || data?.rewritten || data?.text || ""\<close>\<close>

definition extract_out :: "rewrite_body \<Rightarrow> string" where
  "extract_out data = str_or (rewrite data) (str_or (rewritten data) (str_or (text_field data) []))"

definition settled_entry :: "rewrite_body fetched \<Rightarrow> rewrite_state" where
  "settled_entry r =
     (case rewrite_try r of
        Inr data \<Rightarrow>
          \<lparr> rw_loading = False, rw_error = [],
            rw_output = str_or (Some (extract_out data)) ''(empty rewrite)'' \<rparr>
      | Inl msg \<Rightarrow>
          \<lparr> rw_loading = False, rw_error = str_or (Some msg) ''Rewrite failed.'', rw_output = [] \<rparr>)"

definition rewriteSentence_settle :: "app \<Rightarrow> string \<Rightarrow> rewrite_body fetched \<Rightarrow> app" where
  "rewriteSentence_settle st key r =
     st\<lparr>rewriteBySentence := (\<lambda>prev. prev(key \<mapsto> settled_entry r)) (rewriteBySentence st)\<rparr>"

text \<open>
  \<open>SentenceCard\<close>: what it reads from its \<open>rewriteState\<close> prop, and its button, which
  is \<open>disabled={loading}\<close> and calls \<open>rewriteSentence(x.sentence, "plain_english")\<close>
  with the cache of the current render.
\<close>

definition card_loading :: "rewrite_state option \<Rightarrow> bool" where
  "card_loading rs = (case rs of None \<Rightarrow> False | Some e \<Rightarrow> rw_loading e)"

definition card_err :: "rewrite_state option \<Rightarrow> string" where
  "card_err rs = str_or (opt_error rs) []"

definition card_out :: "rewrite_state option \<Rightarrow> string" where
  "card_out rs = str_or (opt_output rs) []"

definition card_click :: "app \<Rightarrow> string \<Rightarrow> app \<times> request list" where
  "card_click st s =
     (if card_loading (rewriteBySentence st s) then (st, [])
      else rewriteSentence_begin (rewriteBySentence st) st s ''plain_english'')"

text \<open>
  The four states a card can show, read off the three values \<open>SentenceCard\<close> computes
  from its \<open>rewriteState\<close> prop; a key that was never requested has no entry.
\<close>

definition shape_idle :: "rewrite_state option \<Rightarrow> bool" where
  "shape_idle rs = (\<not> card_loading rs \<and> card_err rs = [] \<and> card_out rs = [])"

definition shape_loading :: "rewrite_state option \<Rightarrow> bool" where
  "shape_loading rs = (card_loading rs \<and> card_err rs = [] \<and> card_out rs = [])"

definition shape_error :: "rewrite_state option \<Rightarrow> bool" where
  "shape_error rs = (\<not> card_loading rs \<and> card_err rs \<noteq> [] \<and> card_out rs = [])"

definition shape_success :: "rewrite_state option \<Rightarrow> bool" where
  "shape_success rs = (\<not> card_loading rs \<and> card_err rs = [] \<and> card_out rs \<noteq> [])"

definition shape_count :: "rewrite_state option \<Rightarrow> nat" where
  "shape_count rs =
     length (filter id [shape_idle rs, shape_loading rs, shape_error rs, shape_success rs])"

section \<open>Runs of the component\<close>

text \<open>
  An event is a handler call or a promise settling. React commits a render before the
  next event is delivered, so a handler called from the page reads the cache of the
  current state. The second component is the log of the network calls made so far.
  A promise may settle at any time and with any answer.
\<close>

datatype event =
    PickFile "pdf_file option"
  | Analyze
  | AnalyzeSettled "analysis_result fetched"
  | SetMinRisk real
  | SetTopN real
  | Rewrite string string
  | RewriteSettled string "rewrite_body fetched"

fun step :: "event \<Rightarrow> app \<times> request list \<Rightarrow> app \<times> request list" where
  "step (PickFile f) (st, net) = (onPickFile st f, net)"
| "step Analyze (st, net) = (case analyzePdf_begin st of (st1, qs) \<Rightarrow> (st1, net @ qs))"
| "step (AnalyzeSettled r) (st, net) = (analyzePdf_settle st r, net)"
| "step (SetMinRisk v) (st, net) = (st\<lparr>minRisk := v\<rparr>, net)"
| "step (SetTopN v) (st, net) = (st\<lparr>topN := v\<rparr>, net)"
| "step (Rewrite s mode) (st, net) =
     (case rewriteSentence_begin (rewriteBySentence st) st s mode of
        (st1, qs) \<Rightarrow> (st1, net @ qs))"
| "step (RewriteSettled key r) (st, net) = (rewriteSentence_settle st key r, net)"

definition run_from :: "app \<times> request list \<Rightarrow> event list \<Rightarrow> app \<times> request list" where
  "run_from s evs = foldl (\<lambda>s e. step e s) s evs"

definition run :: "event list \<Rightarrow> app \<times> request list" where
  "run evs = run_from (initial, []) evs"

section \<open>The earlier client\<close>

text \<open>
  \<open>src/frontend/src/App.js\<close> is an earlier \<open>App\<close> with its own \<open>analyze\<close>: four cells,
  a status in lower case, and no rewrite cache.
\<close>

datatype status0 = S_idle | S_analyzing | S_done | S_error

record app0 =
  file0 :: "pdf_file option"
  status0 :: status0
  error0 :: string
  result0 :: "analysis_result option"

definition analyze_begin :: "app0 \<Rightarrow> app0 \<times> request list" where
  "analyze_begin st =
     (case file0 st of
        None \<Rightarrow> (st, [])
      | Some f \<Rightarrow> (st\<lparr>status0 := S_analyzing, error0 := [], result0 := None\<rparr>, [AnalyzeReq f]))"

definition unreachable0 :: "app0 \<Rightarrow> app0" where
  "unreachable0 st =
     st\<lparr>status0 := S_error,
        error0 := ''Could not reach backend. Is uvicorn running on :8000?''\<rparr>"

definition analyze_settle :: "app0 \<Rightarrow> analysis_result fetched \<Rightarrow> app0" where
  "analyze_settle st r =
     (case r of
        Inl msg \<Rightarrow> unreachable0 st
      | Inr res \<Rightarrow>
          if \<not> ok res
          then (case body_text res of
                  None \<Rightarrow> unreachable0 st
                | Some txt \<Rightarrow>
                    st\<lparr>status0 := S_error,
                       error0 := ''Backend error ('' @ show_nat (status res) @ ''): '' @ txt\<rparr>)
          else (case body_json res of
                  Inl msg \<Rightarrow> unreachable0 st
                | Inr data \<Rightarrow> st\<lparr>result0 := Some data, status0 := S_done\<rparr>))"

definition analyze :: "app0 \<Rightarrow> analysis_result fetched \<Rightarrow> app0 \<times> request list" where
  "analyze st r =
     (case analyze_begin st of
        (st1, []) \<Rightarrow> (st1, [])
      | (st1, q # qs) \<Rightarrow> (analyze_settle st1 r, q # qs))"

section \<open>The specification's readings, for comparison\<close>

text \<open>
  The specification's extraction rule read literally: the first field that is present,
  in the order \<open>rewrite\<close>, \<open>rewritten\<close>, \<open>text\<close>, else empty; an empty result is shown as
  the placeholder.
\<close>

definition spec_first_present :: "rewrite_body \<Rightarrow> string" where
  "spec_first_present data =
     (case rewrite data of
        Some s \<Rightarrow> s
      | None \<Rightarrow> (case rewritten data of
                   Some s \<Rightarrow> s
                 | None \<Rightarrow> (case text_field data of Some s \<Rightarrow> s | None \<Rightarrow> [])))"

definition spec_success_output :: "rewrite_body \<Rightarrow> string" where
  "spec_success_output data =
     (if spec_first_present data = [] then ''(empty rewrite)'' else spec_first_present data)"

text \<open>A failed call: the fetch rejected, the status is not 2xx, or the body is not JSON.\<close>

definition failed :: "'j fetched \<Rightarrow> bool" where
  "failed r = (case r of Inl msg \<Rightarrow> True
               | Inr res \<Rightarrow> \<not> ok res \<or> (case body_json res of Inl m \<Rightarrow> True | Inr d \<Rightarrow> False))"

section \<open>The invariant of the rewrite cache\<close>

text \<open>
  An entry never carries an error and an output together, carries neither while it is
  loading, and is never blank.
\<close>

definition entry_ok :: "rewrite_state \<Rightarrow> bool" where
  "entry_ok e = ((rw_error e = [] \<or> rw_output e = [])
                 \<and> (rw_loading e \<longrightarrow> rw_error e = [] \<and> rw_output e = [])
                 \<and> (rw_loading e \<or> rw_error e \<noteq> [] \<or> rw_output e \<noteq> []))"

definition cache_ok :: "(string \<rightharpoonup> rewrite_state) \<Rightarrow> bool" where
  "cache_ok m = (\<forall>k e. m k = Some e \<longrightarrow> entry_ok e)"

section \<open>Example sessions\<close>

text \<open>
  The scenarios of the specification: three sentences scored 2, 9 and 5; an \<open>/analyze\<close>
  that answers 500 with the body \<open>bad pdf\<close>; a \<open>/rewrite\<close> of \<open>B\<close> that answers
  \<open>{"rewrite": "Simpler B."}\<close>.
\<close>

definition ex_sentences :: "scored list" where
  "ex_sentences = [\<lparr>sentence = ''A'', score = Some 2\<rparr>, \<lparr>sentence = ''B'', score = Some 9\<rparr>,
                   \<lparr>sentence = ''C'', score = Some 5\<rparr>]"

definition ex_analysis :: analysis_result where
  "ex_analysis = \<lparr> grade_level = Some 8, reading_time_minutes = Some 1, total_sentences = Some 3,
                   average_risk_score = Some 5, all_sentences = Some ex_sentences,
                   top_risk_sentences = None \<rparr>"

definition ex_bad_pdf :: "analysis_result response" where
  "ex_bad_pdf = \<lparr> status = 500, body_text = Some ''bad pdf'', body_json = Inl ''Unexpected token'' \<rparr>"

definition ex_analyzed :: "analysis_result response" where
  "ex_analyzed = \<lparr> status = 200, body_text = None, body_json = Inr ex_analysis \<rparr>"

definition ex_done :: app where
  "ex_done = fst (run [PickFile (Some ''a.pdf''), Analyze, AnalyzeSettled (Inr ex_analyzed)])"

definition ex_done0 :: app0 where
  "ex_done0 = fst (analyze \<lparr> file0 = Some ''a.pdf'', status0 = S_idle, error0 = [],
                            result0 = None \<rparr> (Inr ex_analyzed))"

definition ex_simpler :: "rewrite_body response" where
  "ex_simpler = \<lparr> status = 200, body_text = None,
                  body_json = Inr \<lparr> rewrite = Some ''Simpler B.'', rewritten = None,
                                    text_field = None \<rparr> \<rparr>"

definition ex_overloaded :: "rewrite_body response" where
  "ex_overloaded = \<lparr> status = 503, body_text = Some ''busy'', body_json = Inl ''Unexpected token'' \<rparr>"

definition ex_cached :: app where
  "ex_cached = fst (run_from (ex_done, [])
                      [Rewrite ''B'' ''plain_english'', RewriteSettled ''B'' (Inr ex_simpler)])"

definition ex_inflight :: app where
  "ex_inflight = fst (run_from (ex_done, []) [Rewrite ''B'' ''plain_english''])"

section \<open>Facts about the sort\<close>

lemma mset_sort_insert: "mset (sort_insert c x xs) = add_mset x (mset xs)"
  by (induction xs) auto

lemma mset_js_sort: "mset (js_sort c xs) = mset xs"
  by (induction xs) (auto simp: mset_sort_insert)

lemma set_sort_insert: "set (sort_insert c x xs) = insert x (set xs)"
  by (induction xs) auto

lemma desc_sort_insert:
  "sorted_wrt (\<lambda>a b. score0 a \<ge> score0 b) xs \<Longrightarrow>
   sorted_wrt (\<lambda>a b. score0 a \<ge> score0 b) (sort_insert cmp_desc x xs)"
  by (induction xs) (auto simp: set_sort_insert cmp_desc_def)

lemma desc_js_sort: "sorted_wrt (\<lambda>a b. score0 a \<ge> score0 b) (js_sort cmp_desc xs)"
  by (induction xs) (auto simp: desc_sort_insert)

lemma stable_sort_insert:
  "filter (\<lambda>y. score0 y = v) (sort_insert cmp_desc x xs) = filter (\<lambda>y. score0 y = v) (x # xs)"
  by (induction xs) (auto simp: cmp_desc_def)

lemma stable_js_sort:
  "filter (\<lambda>y. score0 y = v) (js_sort cmp_desc xs) = filter (\<lambda>y. score0 y = v) xs"
  by (induction xs) (auto simp: stable_sort_insert)

section \<open>Facts about the derived view\<close>

lemma num_or_zero: "num_or x 0 = x"
  by (simp add: num_or_def)

lemma clamp_bounds: "a \<le> b \<Longrightarrow> a \<le> clamp n a b \<and> clamp n a b \<le> b"
  by (auto simp: clamp_def)

lemma subseq_topShown: "subseq (topShown a m n) (allSorted a)"
proof -
  have "subseq (take k (filter P xs)) xs" for k P and xs :: "scored list"
    by (meson sublist_take sublist_imp_subseq subseq_filter_left subseq_order.trans)
  then show ?thesis by (simp add: topShown_def filtered_def Let_def)
qed

lemma topShown_scores: "x \<in> set (topShown a m n) \<Longrightarrow> clamp m 0 999 \<le> score0 x"
  unfolding topShown_def filtered_def Let_def num_or_zero
  by (auto dest: in_set_takeD)

lemma length_topShown: "real (length (topShown a m n)) \<le> clamp (num_or n 10) 1 200"
proof -
  let ?c = "clamp (num_or n 10) 1 200"
  have "1 \<le> ?c" using clamp_bounds[of 1 200] by simp
  then have "real (nat \<lfloor>?c\<rfloor>) \<le> ?c" by linarith
  moreover have "length (topShown a m n) \<le> nat \<lfloor>?c\<rfloor>"
    by (simp add: topShown_def Let_def)
  ultimately show ?thesis by linarith
qed

lemma heap_untouched: "b < length h \<Longrightarrow> fst (allSorted_heap h a) ! b = h ! b"
  by (simp add: allSorted_heap_def spread_copy_def sort_in_place_def nth_append)

lemma heap_result:
  "fst (allSorted_heap h a) ! snd (allSorted_heap h a) = js_sort cmp_desc (h ! a)"
  by (simp add: allSorted_heap_def spread_copy_def sort_in_place_def nth_append)

lemma allSorted_Some:
  "all_sentences r = Some xs \<Longrightarrow> allSorted (Some r) = js_sort cmp_desc xs"
  by (simp add: allSorted_def)

lemma ex_allSorted:
  "allSorted (Some ex_analysis) =
     [\<lparr>sentence = ''B'', score = Some 9\<rparr>, \<lparr>sentence = ''C'', score = Some 5\<rparr>,
      \<lparr>sentence = ''A'', score = Some 2\<rparr>]"
  by (simp add: allSorted_def ex_analysis_def ex_sentences_def cmp_desc_def score0_def)

lemma ex_filtered_4:
  "filtered (Some ex_analysis) 4 =
     [\<lparr>sentence = ''B'', score = Some 9\<rparr>, \<lparr>sentence = ''C'', score = Some 5\<rparr>]"
  by (simp add: filtered_def ex_allSorted clamp_def num_or_def score0_def)

lemma ex_filtered_0: "filtered (Some ex_analysis) 0 = allSorted (Some ex_analysis)"
  by (simp add: filtered_def ex_allSorted clamp_def num_or_def score0_def)

section \<open>Facts about the session manager and the cache\<close>

lemma show_nat_500: "show_nat 500 = ''500''"
  by (simp add: show_nat.simps)

lemma show_nat_503: "show_nat 503 = ''503''"
  by (simp add: show_nat.simps)

lemma analyzePdf_with_file:
  "file' st = Some f \<Longrightarrow>
   analyzePdf st r =
     (analyzePdf_settle (st\<lparr>error := [], loading := True, statusPill := Analyzing\<rparr>) r,
      [AnalyzeReq f])"
  by (simp add: analyzePdf_def analyzePdf_begin_def)

lemma analyze_with_file:
  "file0 s = Some f \<Longrightarrow>
   analyze s r =
     (analyze_settle (s\<lparr>status0 := S_analyzing, error0 := [], result0 := None\<rparr>) r,
      [AnalyzeReq f])"
  by (simp add: analyze_def analyze_begin_def)

lemma ex_done_eq:
  "ex_done = \<lparr> file' = Some ''a.pdf'', fileName = ''a.pdf'', loading = False, statusPill = Done,
               error = [], analysis = Some ex_analysis, minRisk = 1, topN = 10,
               rewriteBySentence = Map.empty \<rparr>"
  by (simp add: ex_done_def run_def run_from_def initial_def onPickFile_def analyzePdf_begin_def
      analyzePdf_settle_def analyze_try_def ok_def ex_analyzed_def)

lemma ex_done0_eq:
  "ex_done0 = \<lparr> file0 = Some ''a.pdf'', status0 = S_done, error0 = [],
                result0 = Some ex_analysis \<rparr>"
  by (simp add: ex_done0_def analyze_def analyze_begin_def analyze_settle_def ok_def
      ex_analyzed_def)

lemma ex_inflight_eq:
  "ex_inflight = ex_done\<lparr>rewriteBySentence :=
       [''B'' \<mapsto> \<lparr> rw_loading = True, rw_error = [], rw_output = [] \<rparr>]\<rparr>"
  by (simp add: ex_inflight_def run_from_def rewriteSentence_begin_def Let_def truthy_def
      opt_output_def opt_error_def ex_done_eq)

lemma ex_cached_eq:
  "ex_cached = ex_done\<lparr>rewriteBySentence :=
       [''B'' \<mapsto> \<lparr> rw_loading = False, rw_error = [], rw_output = ''Simpler B.'' \<rparr>]\<rparr>"
  by (simp add: ex_cached_def run_from_def rewriteSentence_begin_def Let_def truthy_def
      opt_output_def opt_error_def ex_done_eq rewriteSentence_settle_def settled_entry_def
      rewrite_try_def ok_def ex_simpler_def extract_out_def)

lemma settled_entry_ok: "entry_ok (settled_entry r)"
  by (auto simp: entry_ok_def settled_entry_def split: sum.splits)

lemma cache_ok_empty: "cache_ok Map.empty"
  by (simp add: cache_ok_def)

lemma cache_ok_upd: "cache_ok m \<Longrightarrow> entry_ok e \<Longrightarrow> cache_ok (m(k \<mapsto> e))"
  by (simp add: cache_ok_def)

lemma begin_cache_ok:
  assumes "cache_ok (rewriteBySentence st)"
  shows "cache_ok (rewriteBySentence (fst (rewriteSentence_begin (rewriteBySentence st) st k mode)))"
proof (cases "rewriteBySentence st k")
  case None
  then show ?thesis using assms
    by (simp add: rewriteSentence_begin_def Let_def truthy_def opt_output_def opt_error_def
        cache_ok_upd entry_ok_def)
next
  case (Some e)
  then have "entry_ok e" using assms by (simp add: cache_ok_def)
  then show ?thesis using assms Some
    by (auto simp: rewriteSentence_begin_def Let_def truthy_def opt_output_def opt_error_def
        entry_ok_def intro!: cache_ok_upd)
qed

lemma step_cache_ok:
  "cache_ok (rewriteBySentence (fst s)) \<Longrightarrow> cache_ok (rewriteBySentence (fst (step e s)))"
proof (cases s)
  case (Pair st net)
  assume ok: "cache_ok (rewriteBySentence (fst s))"
  show ?thesis
  proof (cases e)
    case (Rewrite k mode)
    then show ?thesis using ok Pair begin_cache_ok[of st k mode]
      by (cases "rewriteSentence_begin (rewriteBySentence st) st k mode") simp
  next
    case (RewriteSettled k r)
    then show ?thesis using ok Pair
      by (simp add: rewriteSentence_settle_def cache_ok_upd settled_entry_ok)
  next
    case (AnalyzeSettled r)
    then show ?thesis using ok Pair
      by (simp add: analyzePdf_settle_def cache_ok_empty split: sum.splits)
  next
    case Analyze
    then show ?thesis using ok Pair
      by (simp add: analyzePdf_begin_def split: option.splits)
  qed (use ok Pair in \<open>simp_all add: onPickFile_def cache_ok_empty\<close>)
qed

lemma run_from_cache_ok:
  "cache_ok (rewriteBySentence (fst s)) \<Longrightarrow> cache_ok (rewriteBySentence (fst (run_from s evs)))"
  unfolding run_from_def
  by (induction evs arbitrary: s) (simp_all add: step_cache_ok)

lemma run_cache_ok: "cache_ok (rewriteBySentence (fst (run evs)))"
  unfolding run_def by (rule run_from_cache_ok) (simp add: initial_def cache_ok_empty)

lemma shape_count_ok: "(\<And>e. rs = Some e \<Longrightarrow> entry_ok e) \<Longrightarrow> shape_count rs = 1"
proof (cases rs)
  case None
  then show ?thesis
    by (simp add: shape_count_def shape_idle_def shape_loading_def shape_error_def
        shape_success_def card_loading_def card_err_def card_out_def opt_error_def
        opt_output_def)
next
  case (Some e)
  assume "\<And>e. rs = Some e \<Longrightarrow> entry_ok e"
  then have "entry_ok e" using Some by simp
  then consider
      (l) "rw_loading e" "rw_error e = []" "rw_output e = []"
    | (e) "\<not> rw_loading e" "rw_error e \<noteq> []" "rw_output e = []"
    | (s) "\<not> rw_loading e" "rw_error e = []" "rw_output e \<noteq> []"
    unfolding entry_ok_def by blast
  then show ?thesis
    by cases
      (simp_all add: Some shape_count_def shape_idle_def shape_loading_def shape_error_def
        shape_success_def card_loading_def card_err_def card_out_def opt_error_def
        opt_output_def)
qed

lemma settled_ok:
  "\<not> failed r \<Longrightarrow> rw_output (settled_entry r) \<noteq> [] \<and> rw_error (settled_entry r) = []"
  by (cases r) (auto simp: failed_def settled_entry_def rewrite_try_def split: sum.splits)

lemma settled_failed:
  "failed r \<Longrightarrow> rw_error (settled_entry r) \<noteq> [] \<and> rw_output (settled_entry r) = []"
  by (cases r) (auto simp: failed_def settled_entry_def rewrite_try_def split: sum.splits)

lemma begin_enters_loading:
  "snd (rewriteSentence_begin seen st k mode) \<noteq> [] \<Longrightarrow>
     card_loading (rewriteBySentence (fst (rewriteSentence_begin seen st k mode)) k)
   \<and> card_err (rewriteBySentence (fst (rewriteSentence_begin seen st k mode)) k) = []"
  by (auto simp: rewriteSentence_begin_def Let_def card_loading_def card_err_def opt_error_def
      split: if_splits)

lemma run_snoc: "run (evs @ [e]) = step e (run evs)"
  by (simp add: run_def run_from_def)

lemma settle_stores:
  "rewriteBySentence (rewriteSentence_settle st k r) k = Some (settled_entry r)"
  by (simp add: rewriteSentence_settle_def)

lemma settle_success_shape:
  "\<not> failed r \<Longrightarrow> shape_success (rewriteBySentence (rewriteSentence_settle st k r) k)"
  using settled_ok[of r]
  by (cases r)
     (auto simp: settle_stores shape_success_def card_loading_def card_err_def card_out_def
        opt_error_def opt_output_def settled_entry_def rewrite_try_def failed_def
        split: sum.splits)

lemma settle_error_shape:
  "failed r \<Longrightarrow> shape_error (rewriteBySentence (rewriteSentence_settle st k r) k)"
  using settled_failed[of r]
  by (cases r)
     (auto simp: settle_stores shape_error_def card_loading_def card_err_def card_out_def
        opt_error_def opt_output_def settled_entry_def rewrite_try_def failed_def
        split: sum.splits)

lemma begin_loading_shape:
  assumes "cache_ok (rewriteBySentence st)"
    and "snd (rewriteSentence_begin (rewriteBySentence st) st k mode) \<noteq> []"
  shows "shape_loading
           (rewriteBySentence (fst (rewriteSentence_begin (rewriteBySentence st) st k mode)) k)"
proof (cases "rewriteBySentence st k")
  case None
  then show ?thesis
    by (simp add: rewriteSentence_begin_def Let_def truthy_def opt_output_def opt_error_def
        shape_loading_def card_loading_def card_err_def card_out_def)
next
  case (Some e)
  then have "entry_ok e" using assms(1) by (simp add: cache_ok_def)
  then show ?thesis using assms(2) Some
    by (auto simp: rewriteSentence_begin_def Let_def truthy_def opt_output_def opt_error_def
        entry_ok_def shape_loading_def card_loading_def card_err_def card_out_def
        split: if_splits)
qed

section \<open>The claims\<close>

subsection \<open>C1: requests for a key that is loading\<close>

text \<open>
  C1 says that a second \<open>rewriteSentence\<close> for a key whose entry is loading makes no
  network call. It does make one: the guard of \<open>rewriteSentence\<close> looks for a cached
  output only. After one call for \<open>B\<close> the entry is loading, and after a second one
  two \<open>/rewrite\<close> calls for \<open>B\<close> have been made.
\<close>

theorem loading_dedup_counterexample:
  "shape_loading (rewriteBySentence (fst (run [Rewrite ''B'' ''plain_english''])) ''B'')
   \<and> snd (run [Rewrite ''B'' ''plain_english'', Rewrite ''B'' ''plain_english''])
       = [RewriteReq ''B'' ''plain_english'', RewriteReq ''B'' ''plain_english'']"
  by (simp add: run_def run_from_def rewriteSentence_begin_def initial_def truthy_def Let_def
      opt_output_def opt_error_def shape_loading_def card_loading_def card_err_def card_out_def)

text \<open>
  C1, amended: while the entry of a key is loading, the button of its card is disabled,
  so a click makes no network call and changes nothing; a direct call of
  \<open>rewriteSentence\<close> for that key is not suppressed: it makes one more \<open>/rewrite\<close> call
  and leaves the entry loading.
\<close>

theorem loading_dedup_by_button:
  assumes "shape_loading (rewriteBySentence st k)"
  shows "card_click st k = (st, [])
       \<and> snd (rewriteSentence_begin (rewriteBySentence st) st k mode) = [RewriteReq k mode]
       \<and> shape_loading
           (rewriteBySentence (fst (rewriteSentence_begin (rewriteBySentence st) st k mode)) k)"
  using assms
  by (auto simp: card_click_def shape_loading_def rewriteSentence_begin_def truthy_def
      card_out_def card_err_def card_loading_def opt_output_def opt_error_def)

theorem loading_dedup_by_button_witness:
  "shape_loading (rewriteBySentence ex_inflight ''B'')
   \<and> card_click ex_inflight ''B'' = (ex_inflight, [])
   \<and> snd (rewriteSentence_begin (rewriteBySentence ex_inflight) ex_inflight ''B'' ''plain_english'')
       = [RewriteReq ''B'' ''plain_english'']"
proof -
  have l: "shape_loading (rewriteBySentence ex_inflight ''B'')"
    by (simp add: ex_inflight_eq shape_loading_def card_loading_def card_err_def card_out_def
        opt_error_def opt_output_def)
  show ?thesis
    using loading_dedup_by_button [OF l, of "''plain_english''"] l by simp
qed

subsection \<open>C2: the bound on the number of sentences shown\<close>

text \<open>
  C2 says that \<open>topN = 0\<close> gives the view of \<open>topN = 1\<close>. It gives the view of
  \<open>topN = 10\<close>: \<open>Number(topN) || 10\<close> replaces 0 by 10 before the clamp. With the
  three example sentences and no risk threshold, \<open>topN = 0\<close> shows all three and
  \<open>topN = 1\<close> shows one.
\<close>

theorem topN_zero_counterexample:
  "topShown (Some ex_analysis) 0 0 \<noteq> topShown (Some ex_analysis) 0 1"
  by (simp add: topShown_def ex_filtered_0 ex_allSorted clamp_def num_or_def)

text \<open>
  C2, amended: for every analysis result and \<open>minRisk\<close>, the view with \<open>topN = 0\<close> is
  the view with \<open>topN = 10\<close>, and the view with \<open>topN = 500\<close> is the view with
  \<open>topN = 200\<close>; every \<open>topN\<close> other than 0 is clamped to \<open>[1, 200]\<close> before the
  truncation, so a non-zero \<open>topN\<close> below 1 gives the view of 1 and one above 200
  gives the view of 200.
\<close>

theorem topN_clamp:
  "topShown a m 0 = topShown a m 10
   \<and> topShown a m 500 = topShown a m 200
   \<and> (n \<noteq> 0 \<longrightarrow> topShown a m n = take (nat \<lfloor>clamp n 1 200\<rfloor>) (filtered a m))
   \<and> (lo \<noteq> 0 \<and> lo \<le> 1 \<longrightarrow> topShown a m lo = topShown a m 1)
   \<and> (200 \<le> hi \<longrightarrow> topShown a m hi = topShown a m 200)"
  by (simp add: topShown_def num_or_def clamp_def Let_def)

theorem topN_clamp_witness:
  "(2::real) \<noteq> 0 \<and> (-3::real) \<noteq> 0 \<and> (-3::real) \<le> 1 \<and> (200::real) \<le> 500
   \<and> topShown (Some ex_analysis) 0 0 = topShown (Some ex_analysis) 0 10
   \<and> topShown (Some ex_analysis) 0 2 = take 2 (allSorted (Some ex_analysis))
   \<and> topShown (Some ex_analysis) 0 (-3) = topShown (Some ex_analysis) 0 1
   \<and> topShown (Some ex_analysis) 0 500 = topShown (Some ex_analysis) 0 200"
  using topN_clamp [of "Some ex_analysis" 0 2 "-3" 500]
  by (simp add: ex_filtered_0 clamp_def)

subsection \<open>C3: a failed submit\<close>

text \<open>
  C3 says that a failed submit keeps the previous result and that a network failure
  leaves a generic could-not-reach-backend message. The two clients split on it.
  The earlier client, which has that message, clears the result when the submit
  starts: after a 500 the result of the finished session is gone. The current client
  keeps the result, and shows the message of the error thrown: two network failures
  with different messages leave different banners.
\<close>

theorem submit_failure_counterexample:
  "result0 (fst (analyze ex_done0 (Inr ex_bad_pdf))) \<noteq> result0 ex_done0
   \<and> error (fst (analyzePdf ex_done (Inl ''Failed to fetch'')))
       \<noteq> error (fst (analyzePdf ex_done (Inl ''Load failed'')))"
  by (simp add: analyze_def analyze_begin_def analyze_settle_def ex_done0_eq ex_bad_pdf_def ok_def
      analyzePdf_def analyzePdf_begin_def analyzePdf_settle_def analyze_try_def ex_done_eq)

text \<open>
  C3, amended: if a submit with a file selected ends in a non-2xx response or a network
  error, the status becomes Error and a non-empty error message is retained. In the
  current client (\<open>analyzePdf\<close>) the message is \<open>Analyze failed (<status>). <body>\<close>
  for a non-2xx response, and for a network error the message of the error thrown, or
  \<open>Analyze failed.\<close> when that is empty; the stored result is left unchanged. In the
  earlier client (\<open>analyze\<close>) the message is \<open>Backend error (<status>): <body>\<close>, or
  the fixed could-not-reach-backend text for a network error or an unreadable body,
  and the previous result has been cleared.
\<close>

theorem submit_failure:
  fixes res :: "analysis_result response"
  assumes "file' st = Some f" and "\<not> ok res" and "file0 s = Some f"
  shows
   "fst (analyzePdf st (Inr res)) =
      st\<lparr>error := ''Analyze failed ('' @ show_nat (status res) @ ''). '' @ text_or_empty res,
         loading := False, statusPill := Error\<rparr>
    \<and> fst (analyzePdf st (Inl msg)) =
      st\<lparr>error := (if msg = [] then ''Analyze failed.'' else msg),
         loading := False, statusPill := Error\<rparr>
    \<and> statusPill (fst (analyzePdf st (Inr res))) = Error
    \<and> statusPill (fst (analyzePdf st (Inl msg))) = Error
    \<and> error (fst (analyzePdf st (Inr res))) \<noteq> []
    \<and> error (fst (analyzePdf st (Inl msg))) \<noteq> []
    \<and> analysis (fst (analyzePdf st (Inr res))) = analysis st
    \<and> analysis (fst (analyzePdf st (Inl msg))) = analysis st
    \<and> analysis (analyzePdf_settle st (Inr res)) = analysis st
    \<and> analysis (analyzePdf_settle st (Inl msg)) = analysis st
    \<and> fst (analyze s (Inr res)) =
        s\<lparr>status0 := S_error,
          error0 := (case body_text res of
                       None \<Rightarrow> ''Could not reach backend. Is uvicorn running on :8000?''
                     | Some txt \<Rightarrow> ''Backend error ('' @ show_nat (status res) @ ''): '' @ txt),
          result0 := None\<rparr>
    \<and> fst (analyze s (Inl msg)) =
        s\<lparr>status0 := S_error,
          error0 := ''Could not reach backend. Is uvicorn running on :8000?'',
          result0 := None\<rparr>"
  using assms
  by (simp add: analyzePdf_with_file analyze_with_file analyzePdf_settle_def analyze_try_def
      analyze_settle_def unreachable0_def split: option.splits)

theorem submit_failure_witness:
  "file' ex_done = Some ''a.pdf'' \<and> \<not> ok ex_bad_pdf \<and> file0 ex_done0 = Some ''a.pdf''
   \<and> statusPill (fst (analyzePdf ex_done (Inr ex_bad_pdf))) = Error
   \<and> error (fst (analyzePdf ex_done (Inr ex_bad_pdf))) = ''Analyze failed (500). bad pdf''
   \<and> analysis (fst (analyzePdf ex_done (Inr ex_bad_pdf))) = Some ex_analysis
   \<and> error (fst (analyzePdf ex_done (Inl ''Failed to fetch''))) = ''Failed to fetch''
   \<and> result0 (fst (analyze ex_done0 (Inr ex_bad_pdf))) = None
   \<and> error0 (fst (analyze ex_done0 (Inr ex_bad_pdf))) = ''Backend error (500): bad pdf''"
proof -
  have f: "file' ex_done = Some ''a.pdf''" by (simp add: ex_done_eq)
  have n: "\<not> ok ex_bad_pdf" by (simp add: ok_def ex_bad_pdf_def)
  have f0: "file0 ex_done0 = Some ''a.pdf''" by (simp add: ex_done0_eq)
  show ?thesis
    using submit_failure [OF f n f0, of "''Failed to fetch''"] f n f0
    by (simp add: ex_done_eq ex_bad_pdf_def text_or_empty_def show_nat_500)
qed

subsection \<open>C4: the derived view\<close>

text \<open>
  C4 bounds the length of the view by \<open>clamp(topN, 1, 200)\<close>. With \<open>topN = 0\<close> that
  bound is 1, but the code clamps 10: with the three example sentences and
  \<open>minRisk = 4\<close> the view has two elements.
\<close>

theorem derived_view_length_counterexample:
  "\<not> real (length (topShown (Some ex_analysis) 4 0)) \<le> clamp 0 1 200"
  by (simp add: topShown_def ex_filtered_4 clamp_def num_or_def)

text \<open>
  C4, amended: for every analysis result and filter state, the derived view is a
  subsequence of \<open>allSorted\<close>, every element of it has a score (absent read as 0) of at
  least \<open>clamp(minRisk, 0, 999)\<close>, and its length is at most
  \<open>clamp(topN || 10, 1, 200)\<close>, that is with 10 in place of a \<open>topN\<close> of 0.
  \<open>allSorted\<close> is the stable sort of \<open>all_sentences\<close> by descending score: it is in
  descending order, it has the same elements, and the sentences of any one score keep
  their original order. The sort writes to a fresh copy: every array that existed
  before, \<open>all_sentences\<close> among them, is unchanged, and the copy holds the sorted list.
\<close>

theorem derived_view_sound:
  "subseq (topShown a m n) (allSorted a)
   \<and> (\<forall>x \<in> set (topShown a m n). clamp m 0 999 \<le> score0 x)
   \<and> real (length (topShown a m n)) \<le> clamp (num_or n 10) 1 200
   \<and> sorted_wrt (\<lambda>x y. score0 x \<ge> score0 y) (allSorted a)
   \<and> (a = Some r \<and> all_sentences r = Some xs \<longrightarrow>
        mset (allSorted a) = mset xs
      \<and> (\<forall>v. filter (\<lambda>x. score0 x = v) (allSorted a) = filter (\<lambda>x. score0 x = v) xs))
   \<and> (ad < length h \<longrightarrow>
        (\<forall>b < length h. fst (allSorted_heap h ad) ! b = h ! b)
      \<and> snd (allSorted_heap h ad) = length h
      \<and> fst (allSorted_heap h ad) ! snd (allSorted_heap h ad) = js_sort cmp_desc (h ! ad))"
proof -
  have 1: "subseq (topShown a m n) (allSorted a)" by (rule subseq_topShown)
  have 2: "\<forall>x \<in> set (topShown a m n). clamp m 0 999 \<le> score0 x"
    by (simp add: topShown_scores)
  have 3: "real (length (topShown a m n)) \<le> clamp (num_or n 10) 1 200"
    by (rule length_topShown)
  have 4: "sorted_wrt (\<lambda>x y. score0 x \<ge> score0 y) (allSorted a)"
    by (simp add: allSorted_def desc_js_sort split: option.splits)
  have 5: "a = Some r \<and> all_sentences r = Some xs \<longrightarrow>
        mset (allSorted a) = mset xs
      \<and> (\<forall>v. filter (\<lambda>x. score0 x = v) (allSorted a) = filter (\<lambda>x. score0 x = v) xs)"
    by (simp add: allSorted_Some mset_js_sort stable_js_sort)
  have 6: "ad < length h \<longrightarrow>
        (\<forall>b < length h. fst (allSorted_heap h ad) ! b = h ! b)
      \<and> snd (allSorted_heap h ad) = length h
      \<and> fst (allSorted_heap h ad) ! snd (allSorted_heap h ad) = js_sort cmp_desc (h ! ad)"
    by (simp add: heap_untouched heap_result) (simp add: allSorted_heap_def spread_copy_def)
  show ?thesis by (rule conjI[OF 1 conjI[OF 2 conjI[OF 3 conjI[OF 4 conjI[OF 5 6]]]]])
qed

theorem derived_view_sound_witness:
  "topShown (Some ex_analysis) 4 10
     = [\<lparr>sentence = ''B'', score = Some 9\<rparr>, \<lparr>sentence = ''C'', score = Some 5\<rparr>]
   \<and> subseq (topShown (Some ex_analysis) 4 10) (allSorted (Some ex_analysis))
   \<and> clamp 4 0 999 \<le> score0 \<lparr>sentence = ''C'', score = Some 5\<rparr>
   \<and> all_sentences ex_analysis = Some ex_sentences
   \<and> mset (allSorted (Some ex_analysis)) = mset ex_sentences
   \<and> (0::nat) < length [ex_sentences]
   \<and> fst (allSorted_heap [ex_sentences] 0) ! 0 = ex_sentences
   \<and> fst (allSorted_heap [ex_sentences] 0) ! snd (allSorted_heap [ex_sentences] 0)
       = allSorted (Some ex_analysis)"
proof -
  have v: "topShown (Some ex_analysis) 4 10
     = [\<lparr>sentence = ''B'', score = Some 9\<rparr>, \<lparr>sentence = ''C'', score = Some 5\<rparr>]"
    by (simp add: topShown_def ex_filtered_4 clamp_def num_or_def)
  have s: "all_sentences ex_analysis = Some ex_sentences" by (simp add: ex_analysis_def)
  have d: "allSorted (Some ex_analysis) = js_sort cmp_desc ex_sentences"
    by (simp add: allSorted_Some s)
  show ?thesis
    using derived_view_sound [of "Some ex_analysis" 4 10 ex_analysis ex_sentences 0 "[ex_sentences]"]
      v s d
    by auto
qed

subsection \<open>C5: a cached rewrite is not fetched again\<close>

text \<open>
  C5: for every key whose entry holds a non-empty output and no error, a further
  \<open>rewriteSentence\<close> for that key makes no network call and leaves the state, and so
  the entry and its output, unchanged; a click on its card does the same.
\<close>

theorem cached_rewrite_not_refetched:
  assumes "shape_success (rewriteBySentence st k)"
  shows "rewriteSentence_begin (rewriteBySentence st) st k mode = (st, [])
       \<and> step (Rewrite k mode) (st, net) = (st, net)
       \<and> card_click st k = (st, [])"
  using assms
  by (auto simp: shape_success_def rewriteSentence_begin_def truthy_def card_click_def
      card_out_def card_err_def card_loading_def)

theorem cached_rewrite_not_refetched_witness:
  "shape_success (rewriteBySentence ex_cached ''B'')
   \<and> map_option rw_output (rewriteBySentence ex_cached ''B'') = Some ''Simpler B.''
   \<and> rewriteSentence_begin (rewriteBySentence ex_cached) ex_cached ''B'' ''plain_english''
       = (ex_cached, [])
   \<and> step (Rewrite ''B'' ''plain_english'') (ex_cached, [RewriteReq ''B'' ''plain_english''])
       = (ex_cached, [RewriteReq ''B'' ''plain_english''])"
proof -
  have s: "shape_success (rewriteBySentence ex_cached ''B'')"
    by (simp add: ex_cached_eq shape_success_def card_loading_def card_err_def card_out_def
        opt_error_def opt_output_def)
  have o: "map_option rw_output (rewriteBySentence ex_cached ''B'') = Some ''Simpler B.''"
    by (simp add: ex_cached_eq)
  show ?thesis
    using cached_rewrite_not_refetched
            [OF s, of "''plain_english''" "[RewriteReq ''B'' ''plain_english'']"] s o
    by simp
qed

subsection \<open>C6: the output extracted from a rewrite answer\<close>

text \<open>
  C6 says that the output is the first field that is present. A field that is present
  but empty is skipped: for the body \<open>{"rewrite": "", "rewritten": "X"}\<close> the first
  present field is empty, which by the claim shows the placeholder, and the code
  stores \<open>X\<close>.
\<close>

theorem first_present_counterexample:
  "rw_output (settled_entry (Inr \<lparr>status = 200, body_text = None,
       body_json = Inr \<lparr>rewrite = Some [], rewritten = Some ''X'', text_field = None\<rparr>\<rparr>))
   \<noteq> spec_success_output \<lparr>rewrite = Some [], rewritten = Some ''X'', text_field = None\<rparr>"
  by (simp add: settled_entry_def rewrite_try_def ok_def extract_out_def spec_success_output_def
       spec_first_present_def)

text \<open>
  C6, amended: for every 2xx \<open>/rewrite\<close> response with a JSON body, the entry stored is
  not loading, has no error, and its output is the first non-empty field in the order
  \<open>rewrite\<close>, \<open>rewritten\<close>, \<open>text\<close> (an absent field counting as empty); when all three
  are empty the output is the literal \<open>(empty rewrite)\<close>.
\<close>

theorem rewrite_output_extraction:
  assumes "ok res" and "body_json res = Inr data"
  shows "settled_entry (Inr res) =
     \<lparr> rw_loading = False, rw_error = [],
       rw_output = (case filter (\<lambda>s. s \<noteq> [])
                      (map (\<lambda>f. case f of None \<Rightarrow> [] | Some s \<Rightarrow> s)
                         [rewrite data, rewritten data, text_field data]) of
                     [] \<Rightarrow> ''(empty rewrite)'' | s # rest \<Rightarrow> s) \<rparr>"
  using assms
  by (auto simp: settled_entry_def rewrite_try_def extract_out_def split: option.splits)

theorem rewrite_output_extraction_witness:
  "ok ex_simpler
   \<and> body_json ex_simpler = Inr \<lparr>rewrite = Some ''Simpler B.'', rewritten = None, text_field = None\<rparr>
   \<and> settled_entry (Inr ex_simpler)
       = \<lparr> rw_loading = False, rw_error = [], rw_output = ''Simpler B.'' \<rparr>"
proof -
  have k: "ok ex_simpler" by (simp add: ok_def ex_simpler_def)
  have b: "body_json ex_simpler
             = Inr \<lparr>rewrite = Some ''Simpler B.'', rewritten = None, text_field = None\<rparr>"
    by (simp add: ex_simpler_def)
  show ?thesis
    using rewrite_output_extraction [OF k b] k b by simp
qed

subsection \<open>C7: a successful submit starts a new session\<close>

text \<open>
  C7: when \<open>/analyze\<close> answers 2xx with a JSON body, the one update that stores the
  new result also sets \<open>minRisk\<close> to 1 and \<open>topN\<close> to 10 and empties the rewrite cache,
  so that afterwards every sentence key reads as idle, whatever the cache held before.
\<close>

theorem submit_success_resets:
  assumes "ok res" and "body_json res = Inr data" and "file' st = Some f"
  shows "analyzePdf_settle st (Inr res) =
           st\<lparr>analysis := Some data, statusPill := Done, minRisk := 1, topN := 10,
              rewriteBySentence := Map.empty, loading := False\<rparr>
       \<and> analyzePdf st (Inr res) =
           (st\<lparr>analysis := Some data, statusPill := Done, minRisk := 1, topN := 10,
               rewriteBySentence := Map.empty, loading := False, error := []\<rparr>,
            [AnalyzeReq f])
       \<and> rewriteBySentence (fst (analyzePdf st (Inr res))) k = None
       \<and> shape_idle (rewriteBySentence (fst (analyzePdf st (Inr res))) k)
       \<and> shape_idle (rewriteBySentence (analyzePdf_settle st (Inr res)) k)"
  using assms
  by (simp add: analyzePdf_with_file analyzePdf_settle_def analyze_try_def shape_idle_def
      card_loading_def card_err_def card_out_def opt_error_def opt_output_def)

theorem submit_success_resets_witness:
  "ok ex_analyzed \<and> body_json ex_analyzed = Inr ex_analysis \<and> file' ex_cached = Some ''a.pdf''
   \<and> shape_success (rewriteBySentence ex_cached ''B'')
   \<and> analysis (fst (analyzePdf (ex_cached\<lparr>minRisk := 7, topN := 50\<rparr>) (Inr ex_analyzed)))
       = Some ex_analysis
   \<and> minRisk (fst (analyzePdf (ex_cached\<lparr>minRisk := 7, topN := 50\<rparr>) (Inr ex_analyzed))) = 1
   \<and> topN (fst (analyzePdf (ex_cached\<lparr>minRisk := 7, topN := 50\<rparr>) (Inr ex_analyzed))) = 10
   \<and> shape_idle (rewriteBySentence
         (fst (analyzePdf (ex_cached\<lparr>minRisk := 7, topN := 50\<rparr>) (Inr ex_analyzed))) ''B'')"
proof -
  have k: "ok ex_analyzed" by (simp add: ok_def ex_analyzed_def)
  have b: "body_json ex_analyzed = Inr ex_analysis" by (simp add: ex_analyzed_def)
  have f: "file' (ex_cached\<lparr>minRisk := 7, topN := 50\<rparr>) = Some ''a.pdf''"
    by (simp add: ex_cached_eq ex_done_eq)
  have s: "shape_success (rewriteBySentence ex_cached ''B'')"
    by (simp add: ex_cached_eq shape_success_def card_loading_def card_err_def card_out_def
        opt_error_def opt_output_def)
  show ?thesis
    using submit_success_resets [OF k b f, of "''B''"] k b f s by auto
qed

subsection \<open>C8: submit with no file selected\<close>

text \<open>
  C8 says that a submit with no file sets the status to Error. The guard of
  \<open>analyzePdf\<close> sets the error banner and returns; the status pill is not written.
  From the initial state the status stays Idle.
\<close>

theorem submit_without_file_counterexample:
  "statusPill (fst (analyzePdf initial (Inl []))) \<noteq> Error
   \<and> statusPill (fst (analyzePdf_begin initial)) = Idle"
  by (simp add: analyzePdf_begin_def analyzePdf_def initial_def)

text \<open>
  C8, amended: if submit is invoked with no file selected, no network call is made,
  the session-level error banner is set to \<open>Choose a PDF first.\<close> and the call returns
  normally; the status and every other cell keep their values.
\<close>

theorem submit_without_file:
  assumes "file' st = None"
  shows "analyzePdf st r = (st\<lparr>error := ''Choose a PDF first.''\<rparr>, [])
       \<and> analyzePdf_begin st = (st\<lparr>error := ''Choose a PDF first.''\<rparr>, [])
       \<and> snd (analyzePdf st r) = []
       \<and> error (fst (analyzePdf st r)) = ''Choose a PDF first.''
       \<and> statusPill (fst (analyzePdf st r)) = statusPill st"
  using assms by (simp add: analyzePdf_def analyzePdf_begin_def)

theorem submit_without_file_witness:
  "file' initial = None
   \<and> snd (analyzePdf initial (Inr ex_analyzed)) = []
   \<and> error (fst (analyzePdf initial (Inr ex_analyzed))) = ''Choose a PDF first.''
   \<and> statusPill (fst (analyzePdf initial (Inr ex_analyzed))) = Idle"
proof -
  have f: "file' initial = None" by (simp add: initial_def)
  show ?thesis
    using submit_without_file [OF f, of "Inr ex_analyzed"] f by (simp add: initial_def)
qed

subsection \<open>C9: what the completion of a rewrite changes\<close>

text \<open>
  C9: the completion of a \<open>/rewrite\<close> call for a key \<open>k\<close>, with any outcome, writes the
  entry of \<open>k\<close> and nothing else: the entries of all other keys, the session-level
  error, the status and the stored result are as before. The new cache is computed
  from the cache at the time of the completion, so two completions for different keys
  both take effect, in either order.
\<close>

theorem rewrite_settle_frame:
  "rewriteBySentence (rewriteSentence_settle st k r) k = Some (settled_entry r)
   \<and> (k' \<noteq> k \<longrightarrow>
         rewriteBySentence (rewriteSentence_settle st k r) k' = rewriteBySentence st k')
   \<and> rewriteSentence_settle st k r
       = st\<lparr>rewriteBySentence := (rewriteBySentence st)(k \<mapsto> settled_entry r)\<rparr>
   \<and> error (rewriteSentence_settle st k r) = error st
   \<and> statusPill (rewriteSentence_settle st k r) = statusPill st
   \<and> analysis (rewriteSentence_settle st k r) = analysis st
   \<and> (k \<noteq> k2 \<longrightarrow>
        rewriteBySentence (rewriteSentence_settle (rewriteSentence_settle st k r) k2 r2) k
          = Some (settled_entry r)
      \<and> rewriteBySentence (rewriteSentence_settle (rewriteSentence_settle st k r) k2 r2) k2
          = Some (settled_entry r2)
      \<and> rewriteSentence_settle (rewriteSentence_settle st k r) k2 r2
          = rewriteSentence_settle (rewriteSentence_settle st k2 r2) k r)"
  by (auto simp: rewriteSentence_settle_def fun_upd_twist)

theorem rewrite_settle_frame_witness:
  "''B'' \<noteq> ''C''
   \<and> rewriteBySentence (rewriteSentence_settle ex_cached ''C'' (Inr ex_overloaded)) ''B''
       = Some \<lparr> rw_loading = False, rw_error = [], rw_output = ''Simpler B.'' \<rparr>
   \<and> rewriteBySentence (rewriteSentence_settle ex_cached ''C'' (Inr ex_overloaded)) ''C''
       = Some \<lparr> rw_loading = False, rw_error = ''Rewrite failed (503). busy'', rw_output = [] \<rparr>
   \<and> error (rewriteSentence_settle ex_cached ''C'' (Inr ex_overloaded)) = []
   \<and> statusPill (rewriteSentence_settle ex_cached ''C'' (Inr ex_overloaded)) = Done
   \<and> analysis (rewriteSentence_settle ex_cached ''C'' (Inr ex_overloaded)) = Some ex_analysis
   \<and> rewriteBySentence
        (rewriteSentence_settle (rewriteSentence_settle ex_cached ''C'' (Inr ex_overloaded))
           ''D'' (Inr ex_simpler)) ''C''
       = Some \<lparr> rw_loading = False, rw_error = ''Rewrite failed (503). busy'', rw_output = [] \<rparr>"
proof -
  have e: "settled_entry (Inr ex_overloaded)
             = \<lparr> rw_loading = False, rw_error = ''Rewrite failed (503). busy'', rw_output = [] \<rparr>"
    by (simp add: settled_entry_def rewrite_try_def ok_def ex_overloaded_def text_or_empty_def
        show_nat_503)
  have c: "rewriteBySentence ex_cached ''B''
             = Some \<lparr> rw_loading = False, rw_error = [], rw_output = ''Simpler B.'' \<rparr>"
    "error ex_cached = []" "statusPill ex_cached = Done" "analysis ex_cached = Some ex_analysis"
    by (simp_all add: ex_cached_eq ex_done_eq)
  have n: "''B'' \<noteq> ''C''" "''C'' \<noteq> ''D''" by simp_all
  note t = rewrite_settle_frame
             [of ex_cached "''C''" "Inr ex_overloaded" "''B''" "''D''" "Inr ex_simpler"]
  from t have 1: "rewriteBySentence (rewriteSentence_settle ex_cached ''C'' (Inr ex_overloaded)) ''C''
                    = Some (settled_entry (Inr ex_overloaded))"
    by blast
  from t n have 2: "rewriteBySentence (rewriteSentence_settle ex_cached ''C'' (Inr ex_overloaded)) ''B''
                    = rewriteBySentence ex_cached ''B''"
    by blast
  from t have 3: "error (rewriteSentence_settle ex_cached ''C'' (Inr ex_overloaded)) = error ex_cached"
    "statusPill (rewriteSentence_settle ex_cached ''C'' (Inr ex_overloaded)) = statusPill ex_cached"
    "analysis (rewriteSentence_settle ex_cached ''C'' (Inr ex_overloaded)) = analysis ex_cached"
    by blast+
  from t n have 4: "rewriteBySentence
        (rewriteSentence_settle (rewriteSentence_settle ex_cached ''C'' (Inr ex_overloaded))
           ''D'' (Inr ex_simpler)) ''C'' = Some (settled_entry (Inr ex_overloaded))"
    by blast
  show ?thesis
    unfolding 1 2 3 4 e c using n by simp
qed

subsection \<open>C10: the shape of a cache entry\<close>

text \<open>
  C10: after any sequence of events from the initial state, the entry of every key
  shows exactly one of the four states idle, loading, error and success, and never an
  error together with an output. A completion that did not fail stores, under its key,
  an entry with a non-empty output and an empty error, so that the key then shows
  success; a failed one stores an entry with a non-empty error and an empty output, so
  that the key then shows error; this holds from any state, and so at the end of any
  run. A call that goes to the network leaves the entry loading with an empty error,
  and at the end of a run the key then shows loading.
\<close>

theorem cache_entry_shapes:
  "shape_count (rewriteBySentence (fst (run evs)) k) = 1
   \<and> \<not> (card_err (rewriteBySentence (fst (run evs)) k) \<noteq> []
        \<and> card_out (rewriteBySentence (fst (run evs)) k) \<noteq> [])
   \<and> (\<not> failed r1 \<longrightarrow>
        rewriteBySentence (rewriteSentence_settle st k r1) k = Some (settled_entry r1)
      \<and> rw_output (settled_entry r1) \<noteq> [] \<and> rw_error (settled_entry r1) = []
      \<and> shape_success (rewriteBySentence (rewriteSentence_settle st k r1) k)
      \<and> shape_success (rewriteBySentence (fst (run (evs @ [RewriteSettled k r1]))) k))
   \<and> (failed r2 \<longrightarrow>
        rewriteBySentence (rewriteSentence_settle st k r2) k = Some (settled_entry r2)
      \<and> rw_error (settled_entry r2) \<noteq> [] \<and> rw_output (settled_entry r2) = []
      \<and> shape_error (rewriteBySentence (rewriteSentence_settle st k r2) k)
      \<and> shape_error (rewriteBySentence (fst (run (evs @ [RewriteSettled k r2]))) k))
   \<and> (snd (rewriteSentence_begin seen st k mode) \<noteq> [] \<longrightarrow>
        card_loading (rewriteBySentence (fst (rewriteSentence_begin seen st k mode)) k)
      \<and> card_err (rewriteBySentence (fst (rewriteSentence_begin seen st k mode)) k) = [])
   \<and> (snd (run (evs @ [Rewrite k mode])) \<noteq> snd (run evs) \<longrightarrow>
        shape_loading (rewriteBySentence (fst (run (evs @ [Rewrite k mode]))) k))"
proof -
  have ok: "\<And>e. rewriteBySentence (fst (run evs)) k = Some e \<Longrightarrow> entry_ok e"
    using run_cache_ok[of evs] by (simp add: cache_ok_def)
  have 1: "shape_count (rewriteBySentence (fst (run evs)) k) = 1"
    using ok by (rule shape_count_ok)
  have 2: "\<not> (card_err (rewriteBySentence (fst (run evs)) k) \<noteq> []
        \<and> card_out (rewriteBySentence (fst (run evs)) k) \<noteq> [])"
    using ok by (cases "rewriteBySentence (fst (run evs)) k")
      (auto simp: card_err_def card_out_def opt_error_def opt_output_def entry_ok_def)
  have settled: "fst (run (evs @ [RewriteSettled k r])) = rewriteSentence_settle (fst (run evs)) k r"
    for r
    by (cases "run evs") (simp add: run_snoc)
  have 3: "\<not> failed r1 \<longrightarrow>
        rewriteBySentence (rewriteSentence_settle st k r1) k = Some (settled_entry r1)
      \<and> rw_output (settled_entry r1) \<noteq> [] \<and> rw_error (settled_entry r1) = []
      \<and> shape_success (rewriteBySentence (rewriteSentence_settle st k r1) k)
      \<and> shape_success (rewriteBySentence (fst (run (evs @ [RewriteSettled k r1]))) k)"
  proof
    assume nf: "\<not> failed r1"
    show "rewriteBySentence (rewriteSentence_settle st k r1) k = Some (settled_entry r1)
      \<and> rw_output (settled_entry r1) \<noteq> [] \<and> rw_error (settled_entry r1) = []
      \<and> shape_success (rewriteBySentence (rewriteSentence_settle st k r1) k)
      \<and> shape_success (rewriteBySentence (fst (run (evs @ [RewriteSettled k r1]))) k)"
      unfolding settled
      by (intro conjI settle_stores settle_success_shape[OF nf] settled_ok[OF nf, THEN conjunct1]
          settled_ok[OF nf, THEN conjunct2])
  qed
  have 4: "failed r2 \<longrightarrow>
        rewriteBySentence (rewriteSentence_settle st k r2) k = Some (settled_entry r2)
      \<and> rw_error (settled_entry r2) \<noteq> [] \<and> rw_output (settled_entry r2) = []
      \<and> shape_error (rewriteBySentence (rewriteSentence_settle st k r2) k)
      \<and> shape_error (rewriteBySentence (fst (run (evs @ [RewriteSettled k r2]))) k)"
  proof
    assume f: "failed r2"
    show "rewriteBySentence (rewriteSentence_settle st k r2) k = Some (settled_entry r2)
      \<and> rw_error (settled_entry r2) \<noteq> [] \<and> rw_output (settled_entry r2) = []
      \<and> shape_error (rewriteBySentence (rewriteSentence_settle st k r2) k)
      \<and> shape_error (rewriteBySentence (fst (run (evs @ [RewriteSettled k r2]))) k)"
      unfolding settled
      by (intro conjI settle_stores settle_error_shape[OF f] settled_failed[OF f, THEN conjunct1]
          settled_failed[OF f, THEN conjunct2])
  qed
  have 5: "snd (rewriteSentence_begin seen st k mode) \<noteq> [] \<longrightarrow>
        card_loading (rewriteBySentence (fst (rewriteSentence_begin seen st k mode)) k)
      \<and> card_err (rewriteBySentence (fst (rewriteSentence_begin seen st k mode)) k) = []"
    using begin_enters_loading by blast
  have 6: "snd (run (evs @ [Rewrite k mode])) \<noteq> snd (run evs) \<longrightarrow>
        shape_loading (rewriteBySentence (fst (run (evs @ [Rewrite k mode]))) k)"
  proof (cases "run evs")
    case (Pair s net)
    have c: "cache_ok (rewriteBySentence s)" using run_cache_ok[of evs] Pair by simp
    show ?thesis
      using begin_loading_shape[OF c, of k mode] Pair
      by (cases "rewriteSentence_begin (rewriteBySentence s) s k mode") (simp add: run_snoc)
  qed
  show ?thesis by (rule conjI[OF 1 conjI[OF 2 conjI[OF 3 conjI[OF 4 conjI[OF 5 6]]]]])
qed

theorem cache_entry_shapes_witness:
  "\<not> failed (Inr ex_simpler) \<and> failed (Inr ex_overloaded)
   \<and> snd (rewriteSentence_begin Map.empty initial ''B'' ''plain_english'') \<noteq> []
   \<and> snd (run ([Rewrite ''B'' ''plain_english''] @ [Rewrite ''B'' ''plain_english'']))
       \<noteq> snd (run [Rewrite ''B'' ''plain_english''])
   \<and> shape_count (rewriteBySentence (fst (run [Rewrite ''B'' ''plain_english''])) ''B'') = 1
   \<and> rewriteBySentence
        (fst (run ([Rewrite ''B'' ''plain_english''] @ [RewriteSettled ''B'' (Inr ex_simpler)])))
        ''B''
       = Some \<lparr> rw_loading = False, rw_error = [], rw_output = ''Simpler B.'' \<rparr>
   \<and> shape_success (rewriteBySentence
        (fst (run ([Rewrite ''B'' ''plain_english''] @ [RewriteSettled ''B'' (Inr ex_simpler)])))
        ''B'')
   \<and> rewriteBySentence
        (fst (run ([Rewrite ''B'' ''plain_english''] @ [RewriteSettled ''B'' (Inr ex_overloaded)])))
        ''B''
       = Some \<lparr> rw_loading = False, rw_error = ''Rewrite failed (503). busy'', rw_output = [] \<rparr>
   \<and> shape_error (rewriteBySentence
        (fst (run ([Rewrite ''B'' ''plain_english''] @ [RewriteSettled ''B'' (Inr ex_overloaded)])))
        ''B'')
   \<and> shape_loading (rewriteBySentence
        (fst (run ([Rewrite ''B'' ''plain_english''] @ [Rewrite ''B'' ''plain_english''])))
        ''B'')
   \<and> card_loading (rewriteBySentence
        (fst (rewriteSentence_begin Map.empty initial ''B'' ''plain_english'')) ''B'')"
proof -
  have a: "\<not> failed (Inr ex_simpler)" by (simp add: failed_def ok_def ex_simpler_def)
  have b: "failed (Inr ex_overloaded)" by (simp add: failed_def ok_def ex_overloaded_def)
  have c: "snd (rewriteSentence_begin Map.empty initial ''B'' ''plain_english'') \<noteq> []"
    by (simp add: rewriteSentence_begin_def Let_def truthy_def opt_output_def opt_error_def)
  have d: "snd (run ([Rewrite ''B'' ''plain_english''] @ [Rewrite ''B'' ''plain_english'']))
             \<noteq> snd (run [Rewrite ''B'' ''plain_english''])"
    by (simp add: run_def run_from_def rewriteSentence_begin_def initial_def truthy_def Let_def
        opt_output_def opt_error_def)
  have s: "rewriteBySentence
        (fst (run ([Rewrite ''B'' ''plain_english''] @ [RewriteSettled ''B'' (Inr ex_simpler)])))
        ''B''
       = Some \<lparr> rw_loading = False, rw_error = [], rw_output = ''Simpler B.'' \<rparr>"
    by (simp add: run_def run_from_def rewriteSentence_begin_def initial_def truthy_def Let_def
        opt_output_def opt_error_def rewriteSentence_settle_def settled_entry_def rewrite_try_def
        ok_def ex_simpler_def extract_out_def)
  have e: "rewriteBySentence
        (fst (run ([Rewrite ''B'' ''plain_english''] @ [RewriteSettled ''B'' (Inr ex_overloaded)])))
        ''B''
       = Some \<lparr> rw_loading = False, rw_error = ''Rewrite failed (503). busy'', rw_output = [] \<rparr>"
    by (simp add: run_def run_from_def rewriteSentence_begin_def initial_def truthy_def Let_def
        opt_output_def opt_error_def rewriteSentence_settle_def settled_entry_def rewrite_try_def
        ok_def ex_overloaded_def text_or_empty_def show_nat_503)
  note t = cache_entry_shapes
             [of "[Rewrite ''B'' ''plain_english'']" "''B''" "Inr ex_simpler" initial
                 "Inr ex_overloaded" Map.empty "''plain_english''"]
  from t a have 1: "shape_success (rewriteBySentence
        (fst (run ([Rewrite ''B'' ''plain_english''] @ [RewriteSettled ''B'' (Inr ex_simpler)])))
        ''B'')"
    by blast
  from t b have 2: "shape_error (rewriteBySentence
        (fst (run ([Rewrite ''B'' ''plain_english''] @ [RewriteSettled ''B'' (Inr ex_overloaded)])))
        ''B'')"
    by blast
  from t d have 3: "shape_loading (rewriteBySentence
        (fst (run ([Rewrite ''B'' ''plain_english''] @ [Rewrite ''B'' ''plain_english''])))
        ''B'')"
    by blast
  from t c have 4: "card_loading (rewriteBySentence
        (fst (rewriteSentence_begin Map.empty initial ''B'' ''plain_english'')) ''B'')"
    by blast
  from t have 5: "shape_count (rewriteBySentence (fst (run [Rewrite ''B'' ''plain_english''])) ''B'') = 1"
    by blast
  show ?thesis
    by (rule conjI[OF a conjI[OF b conjI[OF c conjI[OF d conjI[OF 5 conjI[OF s conjI[OF 1
          conjI[OF e conjI[OF 2 conjI[OF 3 4]]]]]]]]]])
qed

end
